theory Spec2Isabelle
  imports Main "HOL-Library.Word"
begin

text \<open>
  The notes tab of a mission (\<open>NotesTab.tsx\<close>: paginated loading, reconciliation with
  the mission store, filters, export), the writing chat panel (sending, regenerating and
  deleting messages) and the expansion state of the agent activity log
  (\<open>AgentActivityLog.tsx\<close>), as functions on the components' state, with the properties
  they have.
\<close>

section \<open>JavaScript values used by the components\<close>

text \<open>
  Optional string fields of a note (\<open>source?: string\<close>, \<open>url?: string\<close>) are
  \<open>string option\<close>, \<open>None\<close> standing for \<open>undefined\<close>. A JavaScript condition
  on such a field (\<open>note.url\<close>, \<open>note.source && ...\<close>) is true when the field is
  present and not the empty string.
\<close>

definition truthy :: "string option \<Rightarrow> bool" where
  "truthy v = (case v of None \<Rightarrow> False | Some s \<Rightarrow> s \<noteq> [])"

text \<open>\<open>a || b\<close> on an optional string with a string default.\<close>

definition or_else :: "string option \<Rightarrow> string \<Rightarrow> string" where
  "or_else v d = (case v of None \<Rightarrow> d | Some s \<Rightarrow> (if s = [] then d else s))"

text \<open>
  \<open>String.prototype.includes\<close>: the second string occurs in the first as a block.
  \<open>String.prototype.toLowerCase\<close> maps every cased letter of Unicode; its table is not
  written out here, and the search below takes the function as a parameter.
\<close>

fun startsWith :: "string \<Rightarrow> string \<Rightarrow> bool" where
  "startsWith s [] = True"
| "startsWith [] (p # ps) = False"
| "startsWith (c # cs) (p # ps) = (c = p \<and> startsWith cs ps)"

fun str_includes :: "string \<Rightarrow> string \<Rightarrow> bool" where
  "str_includes [] p = (p = [])"
| "str_includes (c # cs) p = (startsWith (c # cs) p \<or> str_includes cs p)"

section \<open>Notes (NotesTab.tsx)\<close>

record Note =
  note_id :: string
  content :: string
  source :: "string option"
  url :: "string option"
  timestamp :: string
  tags :: "string list option"

datatype filter_kind = All | Web | Documents

subsection \<open>Filtering\<close>

text \<open>
  The callback of \<open>notes.filter\<close> in \<open>filteredNotes\<close>, in its two parts. The first
  argument is \<open>String.prototype.toLowerCase\<close>.
\<close>

definition matchesSearch :: "(string \<Rightarrow> string) \<Rightarrow> string \<Rightarrow> Note \<Rightarrow> bool" where
  "matchesSearch toLowerCase searchTerm n =
     (searchTerm = [] \<or>
      str_includes (toLowerCase (content n)) (toLowerCase searchTerm) \<or>
      (case source n of None \<Rightarrow> False
       | Some s \<Rightarrow> s \<noteq> [] \<and> str_includes (toLowerCase s) (toLowerCase searchTerm)) \<or>
      (case url n of None \<Rightarrow> False
       | Some u \<Rightarrow> u \<noteq> [] \<and> str_includes (toLowerCase u) (toLowerCase searchTerm)))"

definition matchesFilter :: "filter_kind \<Rightarrow> Note \<Rightarrow> bool" where
  "matchesFilter selectedFilter n =
     (selectedFilter = All \<or>
      (selectedFilter = Web \<and> truthy (url n)) \<or>
      (selectedFilter = Documents \<and> truthy (source n) \<and> \<not> truthy (url n)))"

definition filteredNotes ::
  "(string \<Rightarrow> string) \<Rightarrow> string \<Rightarrow> filter_kind \<Rightarrow> Note list \<Rightarrow> Note list" where
  "filteredNotes toLowerCase searchTerm selectedFilter ns =
     filter (\<lambda>n. matchesSearch toLowerCase searchTerm n \<and> matchesFilter selectedFilter n) ns"

text \<open>
  \<open>getFilterCount\<close>: the count shown on each filter button. For \<open>all\<close> it is
  \<open>totalNotesCount || notes.length\<close>.
\<close>

definition getFilterCount :: "int \<Rightarrow> Note list \<Rightarrow> filter_kind \<Rightarrow> int" where
  "getFilterCount totalNotesCount ns f =
     (case f of
        All \<Rightarrow> (if totalNotesCount \<noteq> 0 then totalNotesCount else int (length ns))
      | Web \<Rightarrow> int (length (filter (\<lambda>n. truthy (url n)) ns))
      | Documents \<Rightarrow> int (length (filter (\<lambda>n. truthy (source n) \<and> \<not> truthy (url n)) ns)))"

subsection \<open>Responses of the notes endpoint\<close>

text \<open>
  \<open>GET /api/missions/{id}/notes?limit=&offset=\<close> answers with an object
  \<open>{ notes, total, has_more }\<close>, whose \<open>total\<close> and \<open>has_more\<close> the component allows
  to be missing (\<open>None\<close> is \<open>undefined\<close>), or with a bare array of notes. The request
  itself can fail: the awaited call then throws.
\<close>

datatype response = Page "Note list" "int option" "bool option" | Bare "Note list"

datatype js_error = JsError string

text \<open>\<open>data.notes || data\<close>, \<open>data.total\<close> and \<open>data.has_more\<close>.\<close>

fun data_notes :: "response \<Rightarrow> Note list" where
  "data_notes (Page ns t h) = ns"
| "data_notes (Bare ns) = ns"

fun data_total :: "response \<Rightarrow> int option" where
  "data_total (Page ns t h) = t"
| "data_total (Bare ns) = None"

fun data_has_more :: "response \<Rightarrow> bool option" where
  "data_has_more (Page ns t h) = h"
| "data_has_more (Bare ns) = None"

text \<open>\<open>a || b\<close> on numbers: \<open>undefined\<close> and \<open>0\<close> give the right operand.\<close>

definition num_or :: "int option \<Rightarrow> int \<Rightarrow> int" where
  "num_or a b = (case a of None \<Rightarrow> b | Some v \<Rightarrow> (if v = 0 then b else v))"

subsection \<open>Component state and effects\<close>

text \<open>
  The \<open>useState\<close> cells and the \<open>useRef\<close> cells of \<open>NotesTab\<close>; the cell \<open>notes\<close>
  is \<open>notes_st\<close> here. \<open>missionId\<close> is a prop and is passed to every operation.
\<close>

record notes_tab =
  notes_st :: "Note list"
  searchTerm :: string
  selectedFilter :: filter_kind
  isLoading :: bool
  isLoadingMore :: bool
  hasMoreNotes :: bool
  totalNotesCount :: int
  newNotesCount :: int
  lastScrollPosition :: int
  initialLoadDone :: bool
  previousMissionId :: "string option"

definition initial_notes_tab :: notes_tab where
  "initial_notes_tab =
     \<lparr>notes_st = [], searchTerm = [], selectedFilter = All, isLoading = False,
      isLoadingMore = False, hasMoreNotes = True, totalNotesCount = 0, newNotesCount = 0,
      lastScrollPosition = 0, initialLoadDone = False, previousMissionId = None\<rparr>"

datatype toast_type = Info | Success | Error

text \<open>A toast: type, title, message and the optional duration in milliseconds.\<close>

datatype toast = Toast toast_type string string "nat option"

datatype timer = ShowToast toast | RestoreScroll

text \<open>
  What an operation does beyond updating the state, in the order it does it: the request
  it sends, the calls into the mission store, the console, the toast list, the timers it
  starts and the file it offers.
\<close>

datatype effect =
    Fetch string nat nat
  | SetMissionNotes string "Note list"
  | ConsoleError string
  | AddToast toast
  | SetTimeout timer nat
  | Download string string

subsection \<open>Loading notes\<close>

text \<open>
  An \<open>async\<close> operation runs in two steps. The first step runs up to the \<open>await\<close> and
  returns the request it waits for, if any (limit and offset); the second step runs when
  the request has settled, on the state the component has then. The function named as
  the source's runs both steps with nothing in between.
\<close>

definition loadInitialNotes_begin :: "string \<Rightarrow> notes_tab \<Rightarrow> notes_tab \<times> (nat \<times> nat) option" where
  "loadInitialNotes_begin missionId s =
     (let s1 = (if previousMissionId s \<noteq> Some missionId
                then s\<lparr>initialLoadDone := False, previousMissionId := Some missionId,
                       notes_st := [], totalNotesCount := 0, newNotesCount := 0\<rparr>
                else s)
      in if initialLoadDone s1 then (s1, None)
         else (s1\<lparr>isLoading := True\<rparr>, Some (100, 0)))"

definition loadInitialNotes_done ::
  "string \<Rightarrow> notes_tab \<Rightarrow> js_error + response \<Rightarrow> notes_tab \<times> effect list" where
  "loadInitialNotes_done missionId s result =
     (case result of
        Inr data \<Rightarrow>
          (let newNotes = data_notes data;
               total = num_or (data_total data) (int (length newNotes));
               hasMore = (case data_has_more data of Some b \<Rightarrow> b | None \<Rightarrow> total > 100)
           in (s\<lparr>notes_st := newNotes, totalNotesCount := total, hasMoreNotes := hasMore,
                  initialLoadDone := True, isLoading := False\<rparr>,
               [SetMissionNotes missionId newNotes]))
      | Inl err \<Rightarrow>
          (s\<lparr>isLoading := False\<rparr>, [ConsoleError ''Failed to fetch initial notes:'']))"

definition loadInitialNotes ::
  "string \<Rightarrow> notes_tab \<Rightarrow> js_error + response \<Rightarrow> notes_tab \<times> effect list" where
  "loadInitialNotes missionId s result =
     (case loadInitialNotes_begin missionId s of
        (s1, None) \<Rightarrow> (s1, [])
      | (s1, Some (limit, offset)) \<Rightarrow>
          (let (s2, es) = loadInitialNotes_done missionId s1 result
           in (s2, Fetch missionId limit offset # es)))"

text \<open>
  \<open>loadMoreNotes\<close> reads \<open>notes.length\<close> before the request (\<open>currentLength\<close>) and
  appends to the list the state holds when the answer arrives (\<open>setNotes(prev => ...)\<close>).
\<close>

definition loadMoreNotes_begin :: "string \<Rightarrow> notes_tab \<Rightarrow> notes_tab \<times> (nat \<times> nat) option" where
  "loadMoreNotes_begin missionId s =
     (if \<not> hasMoreNotes s \<or> isLoadingMore s then (s, None)
      else (s\<lparr>isLoadingMore := True\<rparr>, Some (100, length (notes_st s))))"

definition loadMoreNotes_done ::
  "string \<Rightarrow> nat \<Rightarrow> notes_tab \<Rightarrow> js_error + response \<Rightarrow> notes_tab \<times> effect list" where
  "loadMoreNotes_done missionId currentLength s result =
     (case result of
        Inr data \<Rightarrow>
          (let newNotes = data_notes data;
               total = num_or (data_total data) (int currentLength + int (length newNotes));
               hasMore = (case data_has_more data of Some b \<Rightarrow> b
                          | None \<Rightarrow> total > int currentLength + int (length newNotes));
               updated = notes_st s @ newNotes
           in (s\<lparr>notes_st := updated, totalNotesCount := total, hasMoreNotes := hasMore,
                  isLoadingMore := False\<rparr>,
               [SetMissionNotes missionId updated]))
      | Inl err \<Rightarrow>
          (s\<lparr>isLoadingMore := False\<rparr>, [ConsoleError ''Failed to load more notes:'']))"

definition loadMoreNotes ::
  "string \<Rightarrow> notes_tab \<Rightarrow> js_error + response \<Rightarrow> notes_tab \<times> effect list" where
  "loadMoreNotes missionId s result =
     (case loadMoreNotes_begin missionId s of
        (s1, None) \<Rightarrow> (s1, [])
      | (s1, Some (limit, offset)) \<Rightarrow>
          (let (s2, es) = loadMoreNotes_done missionId offset s1 result
           in (s2, Fetch missionId limit offset # es)))"

definition loadAllNotes_begin :: "string \<Rightarrow> notes_tab \<Rightarrow> notes_tab \<times> (nat \<times> nat) option" where
  "loadAllNotes_begin missionId s =
     (if \<not> hasMoreNotes s then (s, None)
      else (s\<lparr>isLoading := True\<rparr>, Some (999999, 0)))"

definition loadAllNotes_done ::
  "string \<Rightarrow> notes_tab \<Rightarrow> js_error + response \<Rightarrow> notes_tab \<times> effect list" where
  "loadAllNotes_done missionId s result =
     (case result of
        Inr data \<Rightarrow>
          (let allNotes = data_notes data;
               total = num_or (data_total data) (int (length allNotes))
           in (s\<lparr>notes_st := allNotes, totalNotesCount := total, hasMoreNotes := False,
                  isLoading := False\<rparr>,
               [SetMissionNotes missionId allNotes]))
      | Inl err \<Rightarrow>
          (s\<lparr>isLoading := False\<rparr>, [ConsoleError ''Failed to load all notes:'']))"

definition loadAllNotes ::
  "string \<Rightarrow> notes_tab \<Rightarrow> js_error + response \<Rightarrow> notes_tab \<times> effect list" where
  "loadAllNotes missionId s result =
     (case loadAllNotes_begin missionId s of
        (s1, None) \<Rightarrow> (s1, [])
      | (s1, Some (limit, offset)) \<Rightarrow>
          (let (s2, es) = loadAllNotes_done missionId s1 result
           in (s2, Fetch missionId limit offset # es)))"

text \<open>
  The two buttons of the load controls. The block that holds them is rendered when
  \<open>hasMoreNotes || notes.length < totalNotesCount\<close>; a disabled button does not call its
  handler.
\<close>

definition loadControlsShown :: "notes_tab \<Rightarrow> bool" where
  "loadControlsShown s = (hasMoreNotes s \<or> int (length (notes_st s)) < totalNotesCount s)"

definition loadMoreDisabled :: "notes_tab \<Rightarrow> bool" where
  "loadMoreDisabled s = (isLoadingMore s \<or> \<not> hasMoreNotes s)"

definition loadAllDisabled :: "notes_tab \<Rightarrow> bool" where
  "loadAllDisabled s = (isLoading s \<or> \<not> hasMoreNotes s)"

definition clickLoadMore :: "string \<Rightarrow> notes_tab \<Rightarrow> notes_tab \<times> (nat \<times> nat) option" where
  "clickLoadMore missionId s =
     (if loadControlsShown s \<and> \<not> loadMoreDisabled s then loadMoreNotes_begin missionId s
      else (s, None))"

definition clickLoadAll :: "string \<Rightarrow> notes_tab \<Rightarrow> notes_tab \<times> (nat \<times> nat) option" where
  "clickLoadAll missionId s =
     (if loadControlsShown s \<and> \<not> loadAllDisabled s then loadAllNotes_begin missionId s
      else (s, None))"

subsection \<open>Reconciliation with the mission store\<close>

text \<open>
  The part of \<open>activeMission\<close> the component reads: the mission's id and its notes,
  which the store may not hold yet.
\<close>

record mission =
  mission_id :: string
  mission_notes :: "Note list option"

text \<open>Decimal digits of a number, as a template literal prints it.\<close>

fun show_nat :: "nat \<Rightarrow> string" where
  "show_nat n =
     (if n < 10 then [''0123456789'' ! n]
      else show_nat (n div 10) @ [''0123456789'' ! (n mod 10)])"

declare show_nat.simps [simp del]

text \<open>
  \<open>preserveScrollPosition\<close>: \<open>scrollTop\<close> is the scroll offset of the list's
  container, \<open>None\<close> when the container is not mounted.
\<close>

definition preserveScrollPosition :: "int option \<Rightarrow> notes_tab \<Rightarrow> notes_tab" where
  "preserveScrollPosition scrollTop s =
     (case scrollTop of None \<Rightarrow> s | Some y \<Rightarrow> s\<lparr>lastScrollPosition := y\<rparr>)"

definition lastNoteId :: "Note list \<Rightarrow> string option" where
  "lastNoteId ns = (if length ns > 0 then Some (note_id (ns ! (length ns - 1))) else None)"

text \<open>
  The effect that listens to the store (\<open>useEffect\<close> on \<open>activeMission.notes\<close>,
  \<open>activeMission.id\<close>, \<open>missionId\<close> and \<open>notes.length\<close>).
\<close>

definition storeSync ::
  "string \<Rightarrow> mission option \<Rightarrow> int option \<Rightarrow> notes_tab \<Rightarrow> notes_tab \<times> effect list" where
  "storeSync missionId activeMission scrollTop s =
     (case activeMission of
        None \<Rightarrow> (s, [])
      | Some m \<Rightarrow>
         (case mission_notes m of
            None \<Rightarrow> (s, [])
          | Some storeNotes \<Rightarrow>
             if mission_id m = missionId \<and> initialLoadDone s then
               if previousMissionId s = Some missionId then
                 (let currentLastNoteId = lastNoteId (notes_st s);
                      storeLastNoteId = lastNoteId storeNotes
                  in if length storeNotes \<noteq> length (notes_st s) \<or>
                        currentLastNoteId \<noteq> storeLastNoteId
                     then
                       (let s1 = preserveScrollPosition scrollTop s;
                            newNotesCount =
                              max 0 (int (length storeNotes) - int (length (notes_st s)))
                        in (s1\<lparr>notes_st := storeNotes,
                                 totalNotesCount := int (length storeNotes)\<rparr>,
                            (if newNotesCount \<ge> 5
                             then [SetTimeout
                                     (ShowToast (Toast Info ''New Research Notes''
                                        (show_nat (nat newNotesCount) @ '' new note'' @
                                         (if newNotesCount > 1 then ''s'' else []) @
                                         '' added'') None)) 500]
                             else []) @
                            [SetTimeout RestoreScroll 50]))
                     else (s, []))
               else if length storeNotes > 0
                    then (s\<lparr>notes_st := storeNotes,
                            totalNotesCount := int (length storeNotes)\<rparr>, [])
                    else (s, [])
             else (s, [])))"

text \<open>The toasts an effect list shows, at once or when its timers fire.\<close>

fun toasts_of :: "effect list \<Rightarrow> toast list" where
  "toasts_of [] = []"
| "toasts_of (AddToast t # es) = t # toasts_of es"
| "toasts_of (SetTimeout (ShowToast t) d # es) = t # toasts_of es"
| "toasts_of (e # es) = toasts_of es"

subsection \<open>Export\<close>

text \<open>
  One entry of the export and \<open>Array.prototype.join\<close>. \<open>formatFullDateTime\<close> comes from
  \<open>utils/timezone\<close> and is a parameter; \<open>handleExportNotes\<close> takes it after the
  \<open>toLowerCase\<close> of the search.
\<close>

definition newline :: char where
  "newline = CHR 0x0A"

definition exportEntry :: "(string \<Rightarrow> string) \<Rightarrow> Note \<Rightarrow> string" where
  "exportEntry formatFullDateTime n =
     (let sourceInfo = or_else (source n) ''Unknown source'';
          urlInfo = or_else (url n) []
      in ''['' @ formatFullDateTime (timestamp n) @ ''] ('' @ sourceInfo @ '')'' @ [newline] @
         content n @ [newline] @
         (if urlInfo \<noteq> [] then ''URL: '' @ urlInfo else []) @ [newline] @
         ''---'' @ [newline])"

fun join :: "string \<Rightarrow> string list \<Rightarrow> string" where
  "join sep [] = []"
| "join sep [x] = x"
| "join sep (x # y # ys) = x @ sep @ join sep (y # ys)"

definition notesText :: "(string \<Rightarrow> string) \<Rightarrow> Note list \<Rightarrow> string" where
  "notesText formatFullDateTime filtered =
     join [newline] (map (exportEntry formatFullDateTime) filtered)"

definition handleExportNotes ::
  "(string \<Rightarrow> string) \<Rightarrow> (string \<Rightarrow> string) \<Rightarrow> string \<Rightarrow> notes_tab \<Rightarrow> effect list" where
  "handleExportNotes toLowerCase formatFullDateTime missionId s =
     [Download (''mission-notes-'' @ take 8 missionId @ ''.txt'')
        (notesText formatFullDateTime
           (filteredNotes toLowerCase (searchTerm s) (selectedFilter s) (notes_st s))),
      AddToast (Toast Success ''Notes Exported''
        ''Research notes have been exported successfully.'' None)]"

text \<open>The number of lines of a text that are the delimiter line \<open>---\<close>.\<close>

fun split_lines :: "string \<Rightarrow> string list" where
  "split_lines [] = [[]]"
| "split_lines (c # cs) =
     (if c = newline then [] # split_lines cs
      else (case split_lines cs of [] \<Rightarrow> [[c]] | l # ls \<Rightarrow> (c # l) # ls))"

definition delimiter_lines :: "string \<Rightarrow> nat" where
  "delimiter_lines txt = length (filter (\<lambda>l. l = ''---'') (split_lines txt))"

text \<open>
  A note whose fields do not break the layout of an entry: the printed timestamp, the
  source and the URL hold no line break, and no line of the content is \<open>---\<close>.
\<close>

definition delimiter_free :: "(string \<Rightarrow> string) \<Rightarrow> Note \<Rightarrow> bool" where
  "delimiter_free formatFullDateTime n =
     (newline \<notin> set (formatFullDateTime (timestamp n)) \<and>
      newline \<notin> set (or_else (source n) ''Unknown source'') \<and>
      newline \<notin> set (or_else (url n) []) \<and>
      ''---'' \<notin> set (split_lines (content n)))"

section \<open>Writing chat panel\<close>

text \<open>
  The text of the input box is a JavaScript string, a sequence of 16-bit code units;
  its white space lies outside ASCII too.
\<close>

type_synonym code_unit = "16 word"

type_synonym js_string = "code_unit list"

record search_settings =
  useWebSearch :: bool
  deepSearch :: bool
  maxIterations :: int
  maxQueries :: int
  deepSearchIterations :: int
  deepSearchQueries :: int

text \<open>The options object handed to \<open>sendMessage\<close> and \<open>regenerateMessage\<close>.\<close>

record send_options =
  opt_documentGroupId :: "string option"
  opt_useWebSearch :: bool
  opt_deepSearch :: bool
  opt_maxIterations :: int
  opt_maxQueries :: int

record chat_panel =
  message :: js_string
  selectedGroupId :: "string option"
  searchSettings :: search_settings

text \<open>
  What the panel reads from the writing store: the ids of the current session and of the
  active chat, \<open>getSessionLoading\<close> and \<open>getCurrentAgentStatus()\<close>.
\<close>

record writing_store =
  currentSession :: "string option"
  activeChat :: "string option"
  getSessionLoading :: "string \<Rightarrow> bool"
  agentStatus :: "string option"

definition sessionLoading :: "writing_store \<Rightarrow> bool" where
  "sessionLoading st =
     (case currentSession st of
        Some sid \<Rightarrow> getSessionLoading st sid
      | None \<Rightarrow>
          ((case activeChat st of Some cid \<Rightarrow> getSessionLoading st cid | None \<Rightarrow> False) \<or>
           getSessionLoading st ''session_creating''))"

definition agentWorking :: "writing_store \<Rightarrow> bool" where
  "agentWorking st =
     (case agentStatus st of
        None \<Rightarrow> False
      | Some a \<Rightarrow> a \<noteq> [] \<and> a \<notin> set [''idle'', ''complete'', ''error''])"

definition chat_isLoading :: "writing_store \<Rightarrow> bool" where
  "chat_isLoading st = (sessionLoading st \<or> agentWorking st)"

text \<open>
  \<open>String.prototype.trim\<close> removes, at both ends, the code units that are white space
  or line terminators of ECMAScript: tab, vertical tab, form feed, U+FEFF and the space
  separators of Unicode (U+0020, U+00A0, U+1680, U+2000 to U+200A, U+202F, U+205F,
  U+3000), and line feed, carriage return, U+2028 and U+2029.
\<close>

definition isWhiteSpace :: "code_unit \<Rightarrow> bool" where
  "isWhiteSpace c =
     (c \<in> set [0x0009, 0x000B, 0x000C, 0xFEFF,
                0x0020, 0x00A0, 0x1680, 0x202F, 0x205F, 0x3000,
                0x000A, 0x000D, 0x2028, 0x2029] \<or>
      (0x2000 \<le> c \<and> c \<le> 0x200A))"

definition trim :: "js_string \<Rightarrow> js_string" where
  "trim s = rev (dropWhile isWhiteSpace (rev (dropWhile isWhiteSpace s)))"

datatype chat_effect =
    SendMessage js_string send_options
  | RegenerateMessage string send_options
  | RemoveMessage string
  | ChatConsoleError string
  | ChatToast toast

datatype outcome = Resolved | Rejected js_error

text \<open>
  \<open>handleSendMessage\<close> up to its \<open>await\<close>: the guard, the trimmed text, the cleared
  input and the call of the store's \<open>sendMessage\<close>.
\<close>

definition handleSendMessage_begin ::
  "writing_store \<Rightarrow> chat_panel \<Rightarrow> chat_panel \<times> chat_effect option" where
  "handleSendMessage_begin st s =
     (if trim (message s) = [] \<or> chat_isLoading st then (s, None)
      else
        (let userMessage = trim (message s)
         in (s\<lparr>message := []\<rparr>,
             Some (SendMessage userMessage
               \<lparr>opt_documentGroupId = selectedGroupId s,
                opt_useWebSearch = useWebSearch (searchSettings s),
                opt_deepSearch = deepSearch (searchSettings s),
                opt_maxIterations =
                  (if deepSearch (searchSettings s) then deepSearchIterations (searchSettings s)
                   else maxIterations (searchSettings s)),
                opt_maxQueries =
                  (if deepSearch (searchSettings s) then deepSearchQueries (searchSettings s)
                   else maxQueries (searchSettings s))\<rparr>))))"

definition handleSendMessage_done :: "chat_panel \<Rightarrow> outcome \<Rightarrow> chat_panel \<times> chat_effect list" where
  "handleSendMessage_done s r =
     (case r of
        Resolved \<Rightarrow> (s, [])
      | Rejected err \<Rightarrow>
          (s, [ChatConsoleError ''Error sending writing message:'',
               ChatToast (Toast Error ''Chat Error''
                 ''Failed to send message. Please try again.'' (Some 5000))]))"

definition handleSendMessage ::
  "writing_store \<Rightarrow> chat_panel \<Rightarrow> outcome \<Rightarrow> chat_panel \<times> chat_effect list" where
  "handleSendMessage st s r =
     (case handleSendMessage_begin st s of
        (s1, None) \<Rightarrow> (s1, [])
      | (s1, Some call) \<Rightarrow>
          (let (s2, es) = handleSendMessage_done s1 r in (s2, call # es)))"

definition handleRegenerate :: "string \<Rightarrow> chat_panel \<Rightarrow> outcome \<Rightarrow> chat_panel \<times> chat_effect list" where
  "handleRegenerate messageId s r =
     (s, RegenerateMessage messageId
           \<lparr>opt_documentGroupId = selectedGroupId s,
            opt_useWebSearch = useWebSearch (searchSettings s),
            opt_deepSearch = deepSearch (searchSettings s),
            opt_maxIterations =
              (if deepSearch (searchSettings s) then deepSearchIterations (searchSettings s)
               else maxIterations (searchSettings s)),
            opt_maxQueries =
              (if deepSearch (searchSettings s) then deepSearchQueries (searchSettings s)
               else maxQueries (searchSettings s))\<rparr> #
         (case r of
            Resolved \<Rightarrow> []
          | Rejected err \<Rightarrow>
              [ChatConsoleError ''Error regenerating message:'',
               ChatToast (Toast Error ''Regeneration Error''
                 ''Failed to regenerate response. Please try again.'' (Some 5000))]))"



subsection \<open>The toast list\<close>




section \<open>Log expansion (AgentActivityLog.tsx)\<close>

text \<open>
  \<open>toggleLogExpansion\<close> replaces the set of expanded indices by a copy in which the
  index is removed when present and added when absent.
\<close>

definition toggleLogExpansion :: "nat \<Rightarrow> nat set \<Rightarrow> nat set" where
  "toggleLogExpansion index prev =
     (if index \<in> prev then prev - {index} else insert index prev)"

section \<open>Sample data\<close>

text \<open>A note with the given id, content, source and URL, for the concrete runs below.\<close>

definition mk_note :: "string \<Rightarrow> string \<Rightarrow> string option \<Rightarrow> string option \<Rightarrow> Note" where
  "mk_note i c src u =
     \<lparr>note_id = i, content = c, source = src, url = u, timestamp = ''2025-01-01T00:00:00Z'',
      tags = None\<rparr>"

text \<open>
  The code units of an ASCII text; a chat panel with the given input text and
  deep-search switch; and a writing store in which no session is loading and the agent
  reports the given status.
\<close>

definition code_units :: "string \<Rightarrow> js_string" where
  "code_units s = map of_char s"

definition sample_chat :: "js_string \<Rightarrow> bool \<Rightarrow> chat_panel" where
  "sample_chat msg deep =
     \<lparr>message = msg, selectedGroupId = None,
      searchSettings =
        \<lparr>useWebSearch = False, deepSearch = deep, maxIterations = 1, maxQueries = 3,
         deepSearchIterations = 3, deepSearchQueries = 5\<rparr>\<rparr>"

definition sample_store :: "string \<Rightarrow> writing_store" where
  "sample_store status =
     \<lparr>currentSession = None, activeChat = Some ''chat1'', getSessionLoading = (\<lambda>i. False),
      agentStatus = Some status\<rparr>"

section \<open>Properties\<close>

subsection \<open>Pagination\<close>

text \<open>
  C1, as stated, fails. The initial load takes the flag from the response when the
  response has one: a page of one note with \<open>total = 1\<close> and \<open>has_more = true\<close> leaves
  \<open>hasMoreNotes\<close> true although the list holds the whole total.
\<close>

theorem has_more_counterexample:
  "hasMoreNotes (fst (loadInitialNotes ''m1'' initial_notes_tab
      (Inr (Page [mk_note ''a'' ''x'' None None] (Some 1) (Some True))))) \<and>
   int (length (notes_st (fst (loadInitialNotes ''m1'' initial_notes_tab
      (Inr (Page [mk_note ''a'' ''x'' None None] (Some 1) (Some True))))))) \<ge>
   totalNotesCount (fst (loadInitialNotes ''m1'' initial_notes_tab
      (Inr (Page [mk_note ''a'' ''x'' None None] (Some 1) (Some True)))))"
  by (simp add: loadInitialNotes_def loadInitialNotes_begin_def loadInitialNotes_done_def
      initial_notes_tab_def num_or_def Let_def)

text \<open>
  C1, amended. A response that carries \<open>has_more\<close> sets the flag to that value, in the
  initial load and in load-more. A response without it sets the flag to false exactly
  when the list held afterwards is at least as long as the total: in load-more always
  (taken with the list unchanged since it read \<open>notes.length\<close>), in the initial load
  when the page holds \<open>min 100 total\<close> notes, as a request with limit 100 is answered.
\<close>

theorem has_more_after_fetch:
  "(data_has_more d = Some b \<longrightarrow>
      hasMoreNotes (fst (loadInitialNotes_done mid s (Inr d))) = b \<and>
      hasMoreNotes (fst (loadMoreNotes_done mid (length (notes_st s)) s (Inr d))) = b) \<and>
   (data_has_more d = None \<longrightarrow>
      (\<not> hasMoreNotes (fst (loadMoreNotes_done mid (length (notes_st s)) s (Inr d))) \<longleftrightarrow>
       int (length (notes_st (fst (loadMoreNotes_done mid (length (notes_st s)) s (Inr d))))) \<ge>
       totalNotesCount (fst (loadMoreNotes_done mid (length (notes_st s)) s (Inr d))))) \<and>
   (data_has_more d = None \<and>
    int (length (data_notes d)) = min 100 (totalNotesCount (fst (loadInitialNotes_done mid s (Inr d)))) \<longrightarrow>
      (\<not> hasMoreNotes (fst (loadInitialNotes_done mid s (Inr d))) \<longleftrightarrow>
       int (length (notes_st (fst (loadInitialNotes_done mid s (Inr d))))) \<ge>
       totalNotesCount (fst (loadInitialNotes_done mid s (Inr d)))))"
  by (auto simp: loadInitialNotes_done_def loadMoreNotes_done_def Let_def)

text \<open>The amended C1 at responses with and without the flag.\<close>

theorem has_more_after_fetch_witness:
  "data_has_more (Page [] (Some 250) (Some True)) = Some True \<and>
   hasMoreNotes (fst (loadInitialNotes_done ''m1'' initial_notes_tab
     (Inr (Page [] (Some 250) (Some True))))) \<and>
   data_has_more (Bare [mk_note ''b'' ''y'' None None]) = None \<and>
   \<not> hasMoreNotes (fst (loadMoreNotes_done ''m1'' 1
     (initial_notes_tab\<lparr>notes_st := [mk_note ''a'' ''x'' None None]\<rparr>)
     (Inr (Bare [mk_note ''b'' ''y'' None None])))) \<and>
   totalNotesCount (fst (loadMoreNotes_done ''m1'' 1
     (initial_notes_tab\<lparr>notes_st := [mk_note ''a'' ''x'' None None]\<rparr>)
     (Inr (Bare [mk_note ''b'' ''y'' None None])))) = 2 \<and>
   int (length (data_notes (Bare [mk_note ''b'' ''y'' None None]))) =
     min 100 (totalNotesCount (fst (loadInitialNotes_done ''m1'' initial_notes_tab
       (Inr (Bare [mk_note ''b'' ''y'' None None]))))) \<and>
   \<not> hasMoreNotes (fst (loadInitialNotes_done ''m1'' initial_notes_tab
     (Inr (Bare [mk_note ''b'' ''y'' None None]))))"
  using has_more_after_fetch [of "Page [] (Some 250) (Some True)" True "''m1''" initial_notes_tab]
    has_more_after_fetch [of "Bare [mk_note ''b'' ''y'' None None]" True "''m1''"
      "initial_notes_tab\<lparr>notes_st := [mk_note ''a'' ''x'' None None]\<rparr>"]
    has_more_after_fetch [of "Bare [mk_note ''b'' ''y'' None None]" True "''m1''"
      initial_notes_tab]
  by (simp add: loadInitialNotes_done_def loadMoreNotes_done_def initial_notes_tab_def
      num_or_def Let_def)

text \<open>
  C2, as stated, fails: a further initial load for a mission is not always a no-op. After
  mission \<open>A\<close> was loaded and then mission \<open>B\<close>, the initial load for \<open>A\<close> finds
  \<open>previousMissionId\<close> different from \<open>A\<close>, resets, and sends the request again.
\<close>

theorem loadInitialNotes_revisit_counterexample:
  "initialLoadDone (fst (loadInitialNotes ''A'' initial_notes_tab
      (Inr (Page [mk_note ''a'' ''x'' None None] (Some 1) (Some False))))) \<and>
   snd (loadInitialNotes ''A''
      (fst (loadInitialNotes ''B''
         (fst (loadInitialNotes ''A'' initial_notes_tab
            (Inr (Page [mk_note ''a'' ''x'' None None] (Some 1) (Some False)))))
         (Inr (Page [mk_note ''b'' ''y'' None None] (Some 1) (Some False)))))
      (Inr (Page [mk_note ''a'' ''x'' None None] (Some 1) (Some False)))) =
     [Fetch ''A'' 100 0, SetMissionNotes ''A'' [mk_note ''a'' ''x'' None None]] \<and>
   notes_st (fst (loadInitialNotes ''A''
      (fst (loadInitialNotes ''B''
         (fst (loadInitialNotes ''A'' initial_notes_tab
            (Inr (Page [mk_note ''a'' ''x'' None None] (Some 1) (Some False)))))
         (Inr (Page [mk_note ''b'' ''y'' None None] (Some 1) (Some False)))))
      (Inr (Page [mk_note ''a'' ''x'' None None] (Some 1) (Some False))))) \<noteq>
   notes_st (fst (loadInitialNotes ''B''
         (fst (loadInitialNotes ''A'' initial_notes_tab
            (Inr (Page [mk_note ''a'' ''x'' None None] (Some 1) (Some False)))))
         (Inr (Page [mk_note ''b'' ''y'' None None] (Some 1) (Some False)))))"
  by (simp add: loadInitialNotes_def loadInitialNotes_begin_def loadInitialNotes_done_def
      initial_notes_tab_def num_or_def mk_note_def Let_def)

text \<open>
  C2, amended. After an initial load whose request succeeded, a further initial load for
  the same mission sends no request and returns the state as it is, whatever the server
  would answer; this holds in every state whose two refs say that the load for this
  mission is done, that is, as long as no other mission was loaded in between. In any
  other state the load requests the first page and replaces the list by it, so that
  loading a mission again without new server data gives the same list, with nothing
  doubled.
\<close>

theorem loadInitialNotes_idempotent:
  "loadInitialNotes mid (fst (loadInitialNotes mid s (Inr d))) r =
     (fst (loadInitialNotes mid s (Inr d)), []) \<and>
   loadInitialNotes_begin mid (fst (loadInitialNotes mid s (Inr d))) =
     (fst (loadInitialNotes mid s (Inr d)), None) \<and>
   (initialLoadDone s \<and> previousMissionId s = Some mid \<longrightarrow>
      loadInitialNotes mid s r = (s, []) \<and> loadInitialNotes_begin mid s = (s, None)) \<and>
   (\<not> (initialLoadDone s \<and> previousMissionId s = Some mid) \<longrightarrow>
      notes_st (fst (loadInitialNotes mid s (Inr d))) = data_notes d \<and>
      snd (loadInitialNotes mid s (Inr d)) =
        [Fetch mid 100 0, SetMissionNotes mid (data_notes d)] \<and>
      notes_st (fst (loadInitialNotes mid (fst (loadInitialNotes mid s (Inr d))) r)) =
        data_notes d)"
  by (auto simp: loadInitialNotes_def loadInitialNotes_begin_def loadInitialNotes_done_def
      Let_def split: prod.splits option.splits)

text \<open>The amended C2 on a first load into the component's initial state, then a second one.\<close>

theorem loadInitialNotes_idempotent_witness:
  "initialLoadDone (fst (loadInitialNotes ''m1'' initial_notes_tab
      (Inr (Page [mk_note ''a'' ''x'' None None] (Some 1) (Some False))))) \<and>
   previousMissionId (fst (loadInitialNotes ''m1'' initial_notes_tab
      (Inr (Page [mk_note ''a'' ''x'' None None] (Some 1) (Some False))))) = Some ''m1'' \<and>
   \<not> (initialLoadDone initial_notes_tab \<and> previousMissionId initial_notes_tab = Some ''m1'') \<and>
   notes_st (fst (loadInitialNotes ''m1''
      (fst (loadInitialNotes ''m1'' initial_notes_tab
         (Inr (Page [mk_note ''a'' ''x'' None None] (Some 1) (Some False)))))
      (Inr (Page [mk_note ''a'' ''x'' None None] (Some 1) (Some False))))) =
     [mk_note ''a'' ''x'' None None] \<and>
   snd (loadInitialNotes ''m1''
      (fst (loadInitialNotes ''m1'' initial_notes_tab
         (Inr (Page [mk_note ''a'' ''x'' None None] (Some 1) (Some False)))))
      (Inr (Page [mk_note ''a'' ''x'' None None] (Some 1) (Some False)))) = []"
  using loadInitialNotes_idempotent [of "''m1''" initial_notes_tab
      "Page [mk_note ''a'' ''x'' None None] (Some 1) (Some False)"
      "Inr (Page [mk_note ''a'' ''x'' None None] (Some 1) (Some False))"]
    loadInitialNotes_idempotent [of "''m1''"
      "fst (loadInitialNotes ''m1'' initial_notes_tab
         (Inr (Page [mk_note ''a'' ''x'' None None] (Some 1) (Some False))))"
      "Page [mk_note ''a'' ''x'' None None] (Some 1) (Some False)"
      "Inr (Page [mk_note ''a'' ''x'' None None] (Some 1) (Some False))"]
  by (simp add: loadInitialNotes_def loadInitialNotes_begin_def loadInitialNotes_done_def
      initial_notes_tab_def num_or_def Let_def)

text \<open>
  C3, as stated, fails for \<open>loadAllNotes\<close>: the function tests \<open>hasMoreNotes\<close> only. In
  the state of a mounted component whose first load is in flight (\<open>isLoading\<close> set,
  \<open>hasMoreNotes\<close> still true) a call sends the request for all notes and replaces the
  list.
\<close>

theorem loadAllNotes_busy_counterexample:
  "isLoading (initial_notes_tab\<lparr>isLoading := True\<rparr>) \<and>
   loadAllNotes_begin ''m1'' (initial_notes_tab\<lparr>isLoading := True\<rparr>) =
     (initial_notes_tab\<lparr>isLoading := True\<rparr>, Some (999999, 0)) \<and>
   snd (loadAllNotes ''m1'' (initial_notes_tab\<lparr>isLoading := True\<rparr>)
          (Inr (Bare [mk_note ''a'' ''x'' None None]))) =
     [Fetch ''m1'' 999999 0, SetMissionNotes ''m1'' [mk_note ''a'' ''x'' None None]] \<and>
   notes_st (fst (loadAllNotes ''m1'' (initial_notes_tab\<lparr>isLoading := True\<rparr>)
          (Inr (Bare [mk_note ''a'' ''x'' None None])))) \<noteq>
     notes_st (initial_notes_tab\<lparr>isLoading := True\<rparr>)"
  by (simp add: loadAllNotes_def loadAllNotes_begin_def loadAllNotes_done_def
      initial_notes_tab_def num_or_def Let_def)

text \<open>
  C3, amended. \<open>loadMoreNotes\<close> is a no-op while \<open>isLoadingMore\<close> is set: the state is
  unchanged and nothing is requested. \<open>loadAllNotes\<close> is a no-op when \<open>hasMoreNotes\<close> is
  false; while \<open>isLoading\<close> is set it is the Load All button that is disabled, so a
  click does not reach the function.
\<close>

theorem busy_flag_guards:
  "(isLoadingMore s \<longrightarrow>
      loadMoreNotes_begin mid s = (s, None) \<and> loadMoreNotes mid s r = (s, []) \<and>
      clickLoadMore mid s = (s, None)) \<and>
   (\<not> hasMoreNotes s \<longrightarrow>
      loadAllNotes_begin mid s = (s, None) \<and> loadAllNotes mid s r = (s, [])) \<and>
   (isLoading s \<longrightarrow> loadAllDisabled s \<and> clickLoadAll mid s = (s, None))"
  by (auto simp: loadMoreNotes_def loadMoreNotes_begin_def loadAllNotes_def
      loadAllNotes_begin_def clickLoadMore_def clickLoadAll_def loadAllDisabled_def
      loadMoreDisabled_def)

text \<open>The amended C3 at states with each flag set.\<close>

theorem busy_flag_guards_witness:
  "isLoadingMore (initial_notes_tab\<lparr>isLoadingMore := True\<rparr>) \<and>
   loadMoreNotes ''m1'' (initial_notes_tab\<lparr>isLoadingMore := True\<rparr>)
       (Inr (Bare [mk_note ''a'' ''x'' None None])) =
     (initial_notes_tab\<lparr>isLoadingMore := True\<rparr>, []) \<and>
   \<not> hasMoreNotes (initial_notes_tab\<lparr>hasMoreNotes := False\<rparr>) \<and>
   loadAllNotes ''m1'' (initial_notes_tab\<lparr>hasMoreNotes := False\<rparr>)
       (Inr (Bare [mk_note ''a'' ''x'' None None])) =
     (initial_notes_tab\<lparr>hasMoreNotes := False\<rparr>, []) \<and>
   isLoading (initial_notes_tab\<lparr>isLoading := True\<rparr>) \<and>
   clickLoadAll ''m1'' (initial_notes_tab\<lparr>isLoading := True\<rparr>) =
     (initial_notes_tab\<lparr>isLoading := True\<rparr>, None)"
  using busy_flag_guards [of "initial_notes_tab\<lparr>isLoadingMore := True\<rparr>" "''m1''"
      "Inr (Bare [mk_note ''a'' ''x'' None None])"]
    busy_flag_guards [of "initial_notes_tab\<lparr>hasMoreNotes := False\<rparr>" "''m1''"
      "Inr (Bare [mk_note ''a'' ''x'' None None])"]
    busy_flag_guards [of "initial_notes_tab\<lparr>isLoading := True\<rparr>" "''m1''"
      "Inr (Bare [mk_note ''a'' ''x'' None None])"]
  by (simp add: initial_notes_tab_def)

subsection \<open>Store reconciliation\<close>

text \<open>
  C4. When the store holds notes for the mission on view, after the initial load: a
  store list that is fewer than 5 notes longer than the displayed one schedules no
  toast; one that is 5 or more longer schedules exactly one, titled
  \<open>New Research Notes\<close>, with the count in its message; and the effect run again on the
  reconciled state schedules none.
\<close>

theorem store_growth_toast:
  assumes "activeMission = Some m" and "mission_notes m = Some storeNotes"
    and "mission_id m = mid" and "initialLoadDone s" and "previousMissionId s = Some mid"
  shows "(int (length storeNotes) - int (length (notes_st s)) < 5 \<longrightarrow>
            toasts_of (snd (storeSync mid activeMission sc s)) = []) \<and>
         (int (length storeNotes) - int (length (notes_st s)) \<ge> 5 \<longrightarrow>
            toasts_of (snd (storeSync mid activeMission sc s)) =
              [Toast Info ''New Research Notes''
                 (show_nat (length storeNotes - length (notes_st s)) @ '' new notes added'')
                 None]) \<and>
         toasts_of (snd (storeSync mid activeMission sc'
            (fst (storeSync mid activeMission sc s)))) = []"
proof -
  have small: "int (length storeNotes) - int (length (notes_st s)) < 5 \<Longrightarrow>
      toasts_of (snd (storeSync mid activeMission sc s)) = []"
    using assms by (auto simp: storeSync_def Let_def max_def)
  have big: "int (length storeNotes) - int (length (notes_st s)) \<ge> 5 \<Longrightarrow>
      toasts_of (snd (storeSync mid activeMission sc s)) =
        [Toast Info ''New Research Notes''
           (show_nat (length storeNotes - length (notes_st s)) @ '' new notes added'') None]"
    using assms by (auto simp: storeSync_def Let_def max_def nat_diff_distrib')
  have again: "toasts_of (snd (storeSync mid activeMission sc'
      (fst (storeSync mid activeMission sc s)))) = []"
    using assms
    by (auto simp: storeSync_def Let_def preserveScrollPosition_def max_def
        split: option.splits)
  from small big again show ?thesis by blast
qed

text \<open>C4 at a growth of 5 and at a growth of 4.\<close>

theorem store_growth_toast_witness:
  "toasts_of (snd (storeSync ''m1''
      (Some \<lparr>mission_id = ''m1'',
             mission_notes = Some (replicate 5 (mk_note ''a'' ''x'' None None))\<rparr>) None
      (initial_notes_tab\<lparr>initialLoadDone := True, previousMissionId := Some ''m1''\<rparr>))) =
     [Toast Info ''New Research Notes'' ''5 new notes added'' None] \<and>
   toasts_of (snd (storeSync ''m1''
      (Some \<lparr>mission_id = ''m1'',
             mission_notes = Some (replicate 4 (mk_note ''a'' ''x'' None None))\<rparr>) None
      (initial_notes_tab\<lparr>initialLoadDone := True, previousMissionId := Some ''m1''\<rparr>))) = []"
  using store_growth_toast [of
      "Some \<lparr>mission_id = ''m1'',
             mission_notes = Some (replicate 5 (mk_note ''a'' ''x'' None None))\<rparr>"
      "\<lparr>mission_id = ''m1'',
         mission_notes = Some (replicate 5 (mk_note ''a'' ''x'' None None))\<rparr>"
      "replicate 5 (mk_note ''a'' ''x'' None None)" "''m1''"
      "initial_notes_tab\<lparr>initialLoadDone := True, previousMissionId := Some ''m1''\<rparr>"
      None None]
    store_growth_toast [of
      "Some \<lparr>mission_id = ''m1'',
             mission_notes = Some (replicate 4 (mk_note ''a'' ''x'' None None))\<rparr>"
      "\<lparr>mission_id = ''m1'',
         mission_notes = Some (replicate 4 (mk_note ''a'' ''x'' None None))\<rparr>"
      "replicate 4 (mk_note ''a'' ''x'' None None)" "''m1''"
      "initial_notes_tab\<lparr>initialLoadDone := True, previousMissionId := Some ''m1''\<rparr>"
      None None]
  by (simp add: initial_notes_tab_def show_nat.simps)

subsection \<open>Filters\<close>

text \<open>
  C5. The web filter and the documents filter select disjoint sets of notes: no note
  passes both, whatever the search term, the two filtered lists of any list of notes
  share no element, and the counts on the two filter buttons add up to at most the
  length of the list.
\<close>

theorem web_documents_disjoint:
  "\<not> (matchesFilter Web n \<and> matchesFilter Documents n) \<and>
   set (filteredNotes lc t Web ns) \<inter> set (filteredNotes lc t Documents ns) = {} \<and>
   getFilterCount tot ns Web + getFilterCount tot ns Documents \<le> int (length ns)"
proof -
  have a: "\<not> (matchesFilter Web n \<and> matchesFilter Documents n)" for n
    by (simp add: matchesFilter_def)
  have b: "set (filteredNotes lc t Web ns) \<inter> set (filteredNotes lc t Documents ns) = {}"
    using a by (auto simp: filteredNotes_def)
  have "length (filter (\<lambda>n. truthy (url n)) ns) +
        length (filter (\<lambda>n. truthy (source n) \<and> \<not> truthy (url n)) ns) \<le> length ns"
    by (induction ns) auto
  then have c: "getFilterCount tot ns Web + getFilterCount tot ns Documents
                  \<le> int (length ns)"
    by (simp add: getFilterCount_def)
  from a b c show ?thesis by blast
qed

subsection \<open>Export of the filtered notes\<close>

text \<open>Lines of a text that is put together from parts.\<close>

lemma split_lines_nonempty: "split_lines s \<noteq> []"
  by (induction s) (auto split: list.splits)

lemma split_lines_append:
  "split_lines (a @ newline # b) = split_lines a @ split_lines b"
proof (induction a)
  case Nil
  then show ?case by simp
next
  case (Cons c a)
  show ?case
  proof (cases "c = newline")
    case True
    with Cons show ?thesis by simp
  next
    case False
    obtain l ls where "split_lines a = l # ls"
      using split_lines_nonempty [of a] by (cases "split_lines a") auto
    with Cons False show ?thesis by simp
  qed
qed

lemma split_lines_single: "newline \<notin> set s \<Longrightarrow> split_lines s = [s]"
  by (induction s) auto

lemma delimiter_lines_append:
  "delimiter_lines (a @ newline # b) = delimiter_lines a + delimiter_lines b"
  by (simp add: delimiter_lines_def split_lines_append)

lemma delimiter_lines_single:
  "newline \<notin> set s \<Longrightarrow> delimiter_lines s = (if s = ''---'' then 1 else 0)"
  by (simp add: delimiter_lines_def split_lines_single)

lemma delimiter_lines_entry:
  assumes "delimiter_free f n"
  shows "delimiter_lines (exportEntry f n) = 1"
proof -
  let ?h = "''['' @ f (timestamp n) @ ''] ('' @ or_else (source n) ''Unknown source'' @ '')''"
  let ?u = "if or_else (url n) [] \<noteq> [] then ''URL: '' @ or_else (url n) [] else []"
  have e: "exportEntry f n =
      ?h @ newline # (content n @ newline # (?u @ newline # (''---'' @ newline # [])))"
    by (simp add: exportEntry_def Let_def)
  have nl: "newline \<noteq> CHR ''['' \<and> newline \<noteq> CHR '']'' \<and> newline \<noteq> CHR '' '' \<and>
      newline \<noteq> CHR ''('' \<and> newline \<noteq> CHR '')'' \<and> newline \<noteq> CHR ''U'' \<and>
      newline \<noteq> CHR ''R'' \<and> newline \<noteq> CHR ''L'' \<and> newline \<noteq> CHR '':'' \<and>
      newline \<noteq> CHR ''-''"
    by (simp add: newline_def)
  have h: "delimiter_lines ?h = 0"
    using assms nl by (subst delimiter_lines_single) (auto simp: delimiter_free_def)
  have c: "delimiter_lines (content n) = 0"
    using assms by (auto simp: delimiter_free_def delimiter_lines_def filter_empty_conv)
  have u: "delimiter_lines ?u = 0"
    using assms nl by (subst delimiter_lines_single) (auto simp: delimiter_free_def)
  have d: "delimiter_lines ''---'' = 1"
    using nl by (subst delimiter_lines_single) auto
  have z: "delimiter_lines [] = 0"
    by (simp add: delimiter_lines_def)
  show ?thesis
    unfolding e delimiter_lines_append h c u d z by simp
qed

lemma delimiter_lines_join:
  assumes "\<forall>e \<in> set es. delimiter_lines e = 1"
  shows "delimiter_lines (join [newline] es) = length es"
  using assms
proof (induction "[newline]" es rule: join.induct)
  case 1
  then show ?case by (simp add: delimiter_lines_def)
next
  case (2 x)
  then show ?case by simp
next
  case (3 x y ys)
  then show ?case by (simp add: delimiter_lines_append)
qed

text \<open>
  C6, as stated, fails: the text does not determine the number of entries. A single
  note whose content holds a line \<open>---\<close> exports to a text with two delimiter lines, and
  a single note whose content spells out the tail of one entry and the head of the next
  exports to the very text that two notes export to. (\<open>formatFullDateTime\<close> is the
  identity in these runs.)
\<close>

theorem export_entries_counterexample:
  "length [mk_note ''a'' (''x'' @ [newline] @ ''---'' @ [newline] @ ''y'') None None] = 1 \<and>
   delimiter_lines (notesText id
     [mk_note ''a'' (''x'' @ [newline] @ ''---'' @ [newline] @ ''y'') None None]) = 2 \<and>
   notesText id
     [mk_note ''a'' (''x'' @ [newline, newline] @ ''---'' @ [newline, newline] @
        ''[2025-01-01T00:00:00Z] (Unknown source)'' @ [newline] @ ''y'') None None] =
   notesText id [mk_note ''a'' ''x'' None None, mk_note ''b'' ''y'' None None]"
  by (simp add: notesText_def exportEntry_def mk_note_def or_else_def delimiter_lines_def
      newline_def)

text \<open>
  C6, amended. The export offers one download, named \<open>mission-notes-\<close>, the first 8
  characters of the mission id, \<open>.txt\<close>, whose text joins with line breaks one entry per
  filtered note, in the list's order; every entry ends with the line \<open>---\<close>; and the
  text has exactly as many delimiter lines as there are filtered notes when no filtered
  note breaks the layout (\<open>delimiter_free\<close>).
\<close>

theorem export_entries:
  "(\<exists>txt. handleExportNotes lc f mid s =
       [Download (''mission-notes-'' @ take 8 mid @ ''.txt'') txt,
        AddToast (Toast Success ''Notes Exported''
          ''Research notes have been exported successfully.'' None)] \<and>
      txt = join [newline]
        (map (exportEntry f) (filteredNotes lc (searchTerm s) (selectedFilter s) (notes_st s))) \<and>
      ((\<forall>n \<in> set (filteredNotes lc (searchTerm s) (selectedFilter s) (notes_st s)).
          delimiter_free f n) \<longrightarrow>
       delimiter_lines txt =
         length (filteredNotes lc (searchTerm s) (selectedFilter s) (notes_st s)))) \<and>
   (\<exists>body. exportEntry f n = body @ [newline] @ ''---'' @ [newline])"
proof -
  let ?fs = "filteredNotes lc (searchTerm s) (selectedFilter s) (notes_st s)"
  have cnt: "delimiter_lines (join [newline] (map (exportEntry f) ?fs)) = length ?fs"
    if "\<forall>n \<in> set ?fs. delimiter_free f n"
    using that delimiter_lines_join [of "map (exportEntry f) ?fs"]
    by (simp add: delimiter_lines_entry)
  have ent: "\<exists>body. exportEntry f n = body @ [newline] @ ''---'' @ [newline]"
    by (simp add: exportEntry_def Let_def)
  from cnt ent show ?thesis
    by (simp add: handleExportNotes_def notesText_def)
qed

text \<open>The amended C6 on a web note and a document note.\<close>

theorem export_entries_witness:
  "delimiter_free id (mk_note ''a'' ''x'' None (Some ''http://a'')) \<and>
   delimiter_free id (mk_note ''b'' ''y'' (Some ''doc.pdf'') None) \<and>
   handleExportNotes id id ''0123456789abcdef''
     (initial_notes_tab\<lparr>notes_st := [mk_note ''a'' ''x'' None (Some ''http://a''),
                                       mk_note ''b'' ''y'' (Some ''doc.pdf'') None]\<rparr>) =
     [Download ''mission-notes-01234567.txt''
        (exportEntry id (mk_note ''a'' ''x'' None (Some ''http://a'')) @ [newline] @
         exportEntry id (mk_note ''b'' ''y'' (Some ''doc.pdf'') None)),
      AddToast (Toast Success ''Notes Exported''
        ''Research notes have been exported successfully.'' None)] \<and>
   delimiter_lines
     (exportEntry id (mk_note ''a'' ''x'' None (Some ''http://a'')) @ [newline] @
      exportEntry id (mk_note ''b'' ''y'' (Some ''doc.pdf'') None)) = 2"
  using export_entries [of id id "''0123456789abcdef''"
      "initial_notes_tab\<lparr>notes_st := [mk_note ''a'' ''x'' None (Some ''http://a''),
                                        mk_note ''b'' ''y'' (Some ''doc.pdf'') None]\<rparr>"]
  by (simp add: initial_notes_tab_def filteredNotes_def matchesSearch_def matchesFilter_def
      delimiter_free_def mk_note_def or_else_def newline_def handleExportNotes_def
      notesText_def)

subsection \<open>Failures\<close>




subsection \<open>Chat messages\<close>

text \<open>
  C8. \<open>handleRegenerate\<close> always calls \<open>regenerateMessage\<close>, and \<open>handleSendMessage\<close>,
  when its guard lets it through, calls \<open>sendMessage\<close>, with the same options: their
  \<open>maxIterations\<close> and \<open>maxQueries\<close> are the deep-search limits when \<open>deepSearch\<close> is on
  and the normal limits when it is off.
\<close>

theorem deep_search_limits:
  "\<exists>opts.
     handleRegenerate msgId c Resolved = (c, [RegenerateMessage msgId opts]) \<and>
     handleRegenerate msgId c (Rejected e) =
       (c, [RegenerateMessage msgId opts,
            ChatConsoleError ''Error regenerating message:'',
            ChatToast (Toast Error ''Regeneration Error''
              ''Failed to regenerate response. Please try again.'' (Some 5000))]) \<and>
     (trim (message c) \<noteq> [] \<and> \<not> chat_isLoading st \<longrightarrow>
        handleSendMessage st c Resolved =
          (c\<lparr>message := []\<rparr>, [SendMessage (trim (message c)) opts]) \<and>
        handleSendMessage st c (Rejected e) =
          (c\<lparr>message := []\<rparr>,
           [SendMessage (trim (message c)) opts,
            ChatConsoleError ''Error sending writing message:'',
            ChatToast (Toast Error ''Chat Error''
              ''Failed to send message. Please try again.'' (Some 5000))])) \<and>
     opt_deepSearch opts = deepSearch (searchSettings c) \<and>
     (deepSearch (searchSettings c) \<longrightarrow>
        opt_maxIterations opts = deepSearchIterations (searchSettings c) \<and>
        opt_maxQueries opts = deepSearchQueries (searchSettings c)) \<and>
     (\<not> deepSearch (searchSettings c) \<longrightarrow>
        opt_maxIterations opts = maxIterations (searchSettings c) \<and>
        opt_maxQueries opts = maxQueries (searchSettings c))"
  by (simp add: handleRegenerate_def handleSendMessage_def handleSendMessage_begin_def
      handleSendMessage_done_def Let_def)

text \<open>
  C8 on a regeneration with the input box empty and on a send, each with deep search on
  (limits 3 and 5) and off (limits 1 and 3).
\<close>

theorem deep_search_limits_witness:
  "handleRegenerate ''msg1'' (sample_chat [] True) Resolved =
     (sample_chat [] True,
      [RegenerateMessage ''msg1''
         \<lparr>opt_documentGroupId = None, opt_useWebSearch = False, opt_deepSearch = True,
          opt_maxIterations = 3, opt_maxQueries = 5\<rparr>]) \<and>
   handleRegenerate ''msg1'' (sample_chat [] False) Resolved =
     (sample_chat [] False,
      [RegenerateMessage ''msg1''
         \<lparr>opt_documentGroupId = None, opt_useWebSearch = False, opt_deepSearch = False,
          opt_maxIterations = 1, opt_maxQueries = 3\<rparr>]) \<and>
   trim (message (sample_chat (code_units ''  draft the intro '') True)) \<noteq> [] \<and>
   \<not> chat_isLoading (sample_store ''idle'') \<and>
   handleSendMessage (sample_store ''idle'')
      (sample_chat (code_units ''  draft the intro '') True) Resolved =
     (sample_chat [] True,
      [SendMessage (code_units ''draft the intro'')
         \<lparr>opt_documentGroupId = None, opt_useWebSearch = False, opt_deepSearch = True,
          opt_maxIterations = 3, opt_maxQueries = 5\<rparr>]) \<and>
   handleSendMessage (sample_store ''idle'')
      (sample_chat (code_units ''  draft the intro '') False) Resolved =
     (sample_chat [] False,
      [SendMessage (code_units ''draft the intro'')
         \<lparr>opt_documentGroupId = None, opt_useWebSearch = False, opt_deepSearch = False,
          opt_maxIterations = 1, opt_maxQueries = 3\<rparr>])"
  using deep_search_limits [where c = "sample_chat [] True" and st = "sample_store ''idle''"
      and msgId = "''msg1''" and e = "JsError ''Network Error''"]
    deep_search_limits [where c = "sample_chat [] False" and st = "sample_store ''idle''"
      and msgId = "''msg1''" and e = "JsError ''Network Error''"]
    deep_search_limits [where c = "sample_chat (code_units ''  draft the intro '') True"
      and st = "sample_store ''idle''" and msgId = "''msg1''" and e = "JsError ''Network Error''"]
    deep_search_limits [where c = "sample_chat (code_units ''  draft the intro '') False"
      and st = "sample_store ''idle''" and msgId = "''msg1''" and e = "JsError ''Network Error''"]
  by (simp add: handleRegenerate_def handleSendMessage_def handleSendMessage_begin_def
      handleSendMessage_done_def sample_store_def sample_chat_def code_units_def
      chat_isLoading_def sessionLoading_def agentWorking_def trim_def isWhiteSpace_def Let_def)

text \<open>
  What \<open>trim\<close> returns: nothing exactly for white space only; otherwise the input
  without white space before and after, between two code units that are not white space.
\<close>

lemma trim_empty_ball: "trim s = [] \<longleftrightarrow> (\<forall>ch \<in> set s. isWhiteSpace ch)"
proof
  assume "trim s = []"
  then have "\<forall>x \<in> set (dropWhile isWhiteSpace s). isWhiteSpace x"
    by (auto simp: trim_def dropWhile_eq_Nil_conv dest: set_dropWhileD)
  then have "dropWhile isWhiteSpace s = []"
    by (metis hd_dropWhile hd_in_set)
  then show "\<forall>ch \<in> set s. isWhiteSpace ch"
    by (simp add: dropWhile_eq_Nil_conv)
next
  assume "\<forall>ch \<in> set s. isWhiteSpace ch"
  then have d: "dropWhile isWhiteSpace s = []" by (simp add: dropWhile_eq_Nil_conv)
  show "trim s = []" unfolding trim_def d by simp
qed

lemma trim_empty_iff: "trim s = [] \<longleftrightarrow> list_all isWhiteSpace s"
  by (simp add: trim_empty_ball list_all_iff)

lemma rev_dropWhile_takeWhile:
  "rev (dropWhile P (rev d)) @ rev (takeWhile P (rev d)) = d"
proof -
  have "rev (dropWhile P (rev d)) @ rev (takeWhile P (rev d)) =
      rev (takeWhile P (rev d) @ dropWhile P (rev d))"
    by (simp only: rev_append)
  also have "\<dots> = rev (rev d)"
    by (simp only: takeWhile_dropWhile_id)
  finally show ?thesis by simp
qed

lemma trim_decompose:
  "\<exists>a b. s = a @ trim s @ b \<and> list_all isWhiteSpace a \<and> list_all isWhiteSpace b"
proof -
  define d where "d = dropWhile isWhiteSpace s"
  define a where "a = takeWhile isWhiteSpace s"
  define b where "b = rev (takeWhile isWhiteSpace (rev d))"
  have 1: "s = a @ d"
    unfolding a_def d_def by (simp only: takeWhile_dropWhile_id)
  have 2: "d = trim s @ b"
    unfolding b_def trim_def d_def [symmetric] by (simp only: rev_dropWhile_takeWhile)
  have 3: "list_all isWhiteSpace a"
    unfolding a_def list_all_iff by (blast dest: set_takeWhileD)
  have 4: "list_all isWhiteSpace b"
    unfolding b_def list_all_iff set_rev by (blast dest: set_takeWhileD)
  from 1 2 have "s = a @ trim s @ b" by simp
  with 3 4 show ?thesis by blast
qed

lemma trim_ends:
  assumes "trim s \<noteq> []"
  shows "\<not> isWhiteSpace (hd (trim s)) \<and> \<not> isWhiteSpace (last (trim s))"
proof -
  define d where "d = dropWhile isWhiteSpace s"
  define x where "x = dropWhile isWhiteSpace (rev d)"
  have t: "trim s = rev x"
    unfolding x_def d_def trim_def ..
  with assms have x: "x \<noteq> []" by simp
  have rd: "rev d = takeWhile isWhiteSpace (rev d) @ x"
    unfolding x_def by (simp only: takeWhile_dropWhile_id)
  with x have d: "d \<noteq> []" by auto
  have "\<not> isWhiteSpace (hd x)"
    using x unfolding x_def by (rule hd_dropWhile)
  then have l: "\<not> isWhiteSpace (last (trim s))"
    using x by (simp add: t last_rev)
  have "last (rev d) = last x"
    using x by (subst rd) (rule last_appendR)
  then have "last x = hd d"
    using d by (simp add: last_rev)
  moreover have "\<not> isWhiteSpace (hd d)"
    using d unfolding d_def by (rule hd_dropWhile)
  ultimately have h: "\<not> isWhiteSpace (hd (trim s))"
    using x by (simp add: t hd_rev)
  from h l show ?thesis ..
qed

text \<open>
  C9. With an input of white space only (the empty input included), or while the panel
  is loading, \<open>handleSendMessage\<close> changes nothing and sends nothing. Otherwise the input
  is empty when \<open>sendMessage\<close> is called and stays so when the call settles, and the text
  sent is the trimmed input: the input without a run of white space at its start and at
  its end, beginning and ending with a code unit that is not white space.
\<close>

theorem handleSendMessage_guard:
  "(list_all isWhiteSpace (message c) \<or> chat_isLoading st \<longrightarrow>
      handleSendMessage_begin st c = (c, None) \<and> handleSendMessage st c r = (c, [])) \<and>
   (\<not> list_all isWhiteSpace (message c) \<and> \<not> chat_isLoading st \<longrightarrow>
      (\<exists>opts.
         handleSendMessage_begin st c =
           (c\<lparr>message := []\<rparr>, Some (SendMessage (trim (message c)) opts)) \<and>
         handleSendMessage st c Resolved =
           (c\<lparr>message := []\<rparr>, [SendMessage (trim (message c)) opts]) \<and>
         handleSendMessage st c (Rejected e) =
           (c\<lparr>message := []\<rparr>,
            [SendMessage (trim (message c)) opts,
             ChatConsoleError ''Error sending writing message:'',
             ChatToast (Toast Error ''Chat Error''
               ''Failed to send message. Please try again.'' (Some 5000))])) \<and>
      \<not> isWhiteSpace (hd (trim (message c))) \<and>
      \<not> isWhiteSpace (last (trim (message c)))) \<and>
   (\<exists>a b. message c = a @ trim (message c) @ b \<and>
      list_all isWhiteSpace a \<and> list_all isWhiteSpace b)"
proof -
  have blank: "list_all isWhiteSpace (message c) \<or> chat_isLoading st \<Longrightarrow>
      handleSendMessage_begin st c = (c, None) \<and> handleSendMessage st c r = (c, [])"
    by (auto simp: trim_empty_iff [symmetric] handleSendMessage_begin_def
        handleSendMessage_def)
  have sends: "\<exists>opts.
         handleSendMessage_begin st c =
           (c\<lparr>message := []\<rparr>, Some (SendMessage (trim (message c)) opts)) \<and>
         handleSendMessage st c Resolved =
           (c\<lparr>message := []\<rparr>, [SendMessage (trim (message c)) opts]) \<and>
         handleSendMessage st c (Rejected e) =
           (c\<lparr>message := []\<rparr>,
            [SendMessage (trim (message c)) opts,
             ChatConsoleError ''Error sending writing message:'',
             ChatToast (Toast Error ''Chat Error''
               ''Failed to send message. Please try again.'' (Some 5000))])"
    if "\<not> list_all isWhiteSpace (message c)" and "\<not> chat_isLoading st"
    using that
    by (simp add: trim_empty_iff [symmetric] handleSendMessage_begin_def
        handleSendMessage_def handleSendMessage_done_def Let_def)
  have ends: "\<not> isWhiteSpace (hd (trim (message c))) \<and>
      \<not> isWhiteSpace (last (trim (message c)))"
    if "\<not> list_all isWhiteSpace (message c)"
    using that trim_ends [of "message c"] by (simp add: trim_empty_iff)
  from blank sends ends trim_decompose [of "message c"] show ?thesis by blast
qed

text \<open>
  C9 on an input of no-break space, space, ideographic space, U+FEFF and line feed, on
  the empty input, on a loading panel, and on a message that is sent.
\<close>

theorem handleSendMessage_guard_witness:
  "list_all isWhiteSpace (message (sample_chat [0x00A0, 0x0020, 0x3000, 0xFEFF, 0x000A] False)) \<and>
   handleSendMessage (sample_store ''idle'')
      (sample_chat [0x00A0, 0x0020, 0x3000, 0xFEFF, 0x000A] False) Resolved =
     (sample_chat [0x00A0, 0x0020, 0x3000, 0xFEFF, 0x000A] False, []) \<and>
   handleSendMessage (sample_store ''idle'') (sample_chat [] False) Resolved =
     (sample_chat [] False, []) \<and>
   chat_isLoading (sample_store ''Searching the web'') \<and>
   handleSendMessage (sample_store ''Searching the web'')
      (sample_chat (code_units ''hello'') False) Resolved =
     (sample_chat (code_units ''hello'') False, []) \<and>
   \<not> list_all isWhiteSpace (message (sample_chat (0x00A0 # code_units '' hello '') False)) \<and>
   \<not> chat_isLoading (sample_store ''idle'') \<and>
   handleSendMessage (sample_store ''idle'')
      (sample_chat (0x00A0 # code_units '' hello '') False) Resolved =
     (sample_chat [] False,
      [SendMessage (code_units ''hello'')
         \<lparr>opt_documentGroupId = None, opt_useWebSearch = False, opt_deepSearch = False,
          opt_maxIterations = 1, opt_maxQueries = 3\<rparr>])"
  using handleSendMessage_guard [where c = "sample_chat [0x00A0, 0x0020, 0x3000, 0xFEFF, 0x000A] False"
      and st = "sample_store ''idle''" and r = Resolved and e = "JsError ''Network Error''"]
    handleSendMessage_guard [where c = "sample_chat [] False"
      and st = "sample_store ''idle''" and r = Resolved and e = "JsError ''Network Error''"]
    handleSendMessage_guard [where c = "sample_chat (code_units ''hello'') False"
      and st = "sample_store ''Searching the web''" and r = Resolved
      and e = "JsError ''Network Error''"]
    handleSendMessage_guard [where c = "sample_chat (0x00A0 # code_units '' hello '') False"
      and st = "sample_store ''idle''" and r = Resolved and e = "JsError ''Network Error''"]
  by (simp add: handleSendMessage_def handleSendMessage_begin_def handleSendMessage_done_def
      sample_store_def sample_chat_def code_units_def chat_isLoading_def sessionLoading_def
      agentWorking_def trim_def isWhiteSpace_def Let_def)

subsection \<open>Expanded log entries\<close>

text \<open>
  C10. Toggling the same index twice gives back the original set of expanded entries;
  one toggle flips the membership of that index and of no other.
\<close>

theorem toggleLogExpansion_involution:
  "toggleLogExpansion i (toggleLogExpansion i S) = S \<and>
   (i \<in> toggleLogExpansion i S \<longleftrightarrow> i \<notin> S) \<and>
   (\<forall>j. j \<noteq> i \<longrightarrow> (j \<in> toggleLogExpansion i S \<longleftrightarrow> j \<in> S))"
  by (auto simp: toggleLogExpansion_def)

text \<open>C10 on the set of expanded entries 1 and 2, toggling entry 2.\<close>

theorem toggleLogExpansion_involution_witness:
  "toggleLogExpansion 2 (toggleLogExpansion 2 {1, 2}) = {1, 2} \<and>
   2 \<notin> toggleLogExpansion 2 {1, 2} \<and>
   1 \<in> toggleLogExpansion 2 {1, 2} \<and>
   3 \<notin> toggleLogExpansion 2 {1, 2}"
  using toggleLogExpansion_involution [of 2 "{1, 2}"] by auto

end
